theory Spec2Isabelle
  imports Complex_Main "HOL-Library.AList"
begin

section \<open>The call monitor of \<^verbatim>\<open>fastchat/serve/call_monitor.py\<close>\<close>

text \<open>
  The monitor scans the most recent log files of every server, indexes the chat
  records by model and by user, caches hourly and daily statistics, and answers
  quota questions from the cached statistics and two limit tables.

  A Python \<^verbatim>\<open>dict\<close> keeps its keys in insertion order and both the ranking and the
  slicing of the statistics depend on that order, so a dict is an association list
  whose keys are pairwise distinct: \<open>map_of\<close> reads a key, \<open>AList.update\<close> is
  \<^verbatim>\<open>d[k] = v\<close> (it overwrites in place, or appends a new key at the end).
  Python's unbounded integers are \<open>int\<close>. Time stamps (\<^verbatim>\<open>time.time()\<close>, seconds
  since the epoch) are \<open>real\<close>: the rounding of floating point is not modelled.
\<close>

subsection \<open>Data\<close>

type_synonym ('k, 'v) dict = "('k \<times> 'v) list"

text \<open>The entry \<^verbatim>\<open>{"tstamp": ..., "user_id": ...}\<close> of \<^verbatim>\<open>model_call[model]\<close>.\<close>

record model_req =
  tstamp :: real
  user_id :: string

text \<open>The entry \<^verbatim>\<open>{"tstamp": ..., "model": ...}\<close> of \<^verbatim>\<open>user_call[ip]\<close>.\<close>

record user_req =
  u_tstamp :: real
  u_model :: string

text \<open>The value \<^verbatim>\<open>{"call_dict": {...}, "total_calls": n}\<close> of the user statistics.\<close>

record user_model_call =
  call_dict :: "(string, int) dict"
  total_calls :: int

text \<open>
  The attributes of \<^verbatim>\<open>Monitor\<close>. The constructor assigns the first five; the four
  cached views are first assigned by \<^verbatim>\<open>update_stats\<close>, so each of them is optional:
  \<open>None\<close> is an attribute that does not exist yet.
\<close>

record monitor =
  log_dir_list :: "string list"
  model_call :: "(string, model_req list) dict"
  user_call :: "(string, user_req list) dict"
  model_call_limit_global :: "(string, int) dict"
  model_call_day_limit_per_user :: "(string, int) dict"
  model_call_stats_hour :: "(string, int) dict option"
  model_call_stats_day :: "(string, int) dict option"
  user_call_stats_hour :: "(string, user_model_call) dict option"
  user_call_stats_day :: "(string, user_model_call) dict option"

datatype error =
    JSONDecodeError
  | TypeError
  | KeyError string
  | AttributeError string

text \<open>
  One line of a log file after \<^verbatim>\<open>json.loads\<close>: not JSON at all, JSON that is not an
  object, or an object; of an object only the four keys that are read matter, each
  present or missing, with values of the types the log producers write.
\<close>

record log_obj =
  obj_type :: "string option"
  obj_model :: "string option"
  obj_tstamp :: "real option"
  obj_ip :: "string option"

datatype log_line = NotJson | NotObject | Object log_obj

subsection \<open>Construction\<close>

definition Monitor_init :: "string list \<Rightarrow> monitor" where
  "Monitor_init dirs =
     \<lparr> log_dir_list = dirs,
       model_call = [],
       user_call = [],
       model_call_limit_global =
         [(''gpt-4-1106-preview'', 100),
          (''gpt-4-0125-preview'', 100),
          (''gpt-4-turbo-browsing'', 200),
          (''gpt-4-turbo-2024-04-09'', 100),
          (''mistral-large-2402'', 200),
          (''llama-3-70b-instruct'', 2000),
          (''claude-3-opus-20240229'', 1000),
          (''claude-3-sonnet-20240229'', 1000),
          (''dbrx-instruct'', 1000),
          (''command-r-plus'', 1000),
          (''gemini-1.5-pro-api-0409-preview'', 1000),
          (''gemini-1.5-pro-api-preview'', 1000),
          (''gpt2-chatbot'', 1000),
          (''im-a-good-gpt2-chatbot'', 3000),
          (''im-also-a-good-gpt2-chatbot'', 3000),
          (''gpt-4o-2024-05-13'', 1000),
          (''gpt-4o-2024-08-06'', 1000),
          (''yi-large'', 300),
          (''deepseek-coder-v2'', 500),
          (''deepseek-v2-api-0628'', 300),
          (''claude-3-5-sonnet-20240620'', 2000),
          (''experimental-mf-router'', 100),
          (''experimental-causal-router'', 100),
          (''llama-3.1-405b-instruct'', 2000),
          (''gemini-1.5-pro-exp-0801'', 800),
          (''sus-column-r'', 3000),
          (''chatgpt-4o-latest'', 3000)],
       model_call_day_limit_per_user =
         [(''gpt-4-1106-preview'', 5),
          (''gpt-4-0125-preview'', 5),
          (''gpt-4-turbo-2024-04-09'', 5),
          (''gpt-4-turbo-browsing'', 8),
          (''mistral-large-2402'', 8),
          (''claude-3-opus-20240229'', 15),
          (''claude-3-sonnet-20240229'', 32),
          (''command-r-plus'', 32),
          (''gemini-1.5-pro-api-0409-preview'', 16),
          (''gemini-1.5-pro-api-preview'', 16),
          (''gpt2-chatbot'', 8),
          (''im-a-good-gpt2-chatbot'', 16),
          (''im-also-a-good-gpt2-chatbot'', 16),
          (''gpt-4o-2024-05-13'', 8),
          (''gpt-4o-2024-08-06'', 8),
          (''deepseek-coder-v2'', 16),
          (''claude-3-5-sonnet-20240620'', 16),
          (''llama-3.1-405b-instruct'', 16),
          (''gemini-1.5-pro-exp-0801'', 8),
          (''sus-column-r'', 16),
          (''chatgpt-4o-latest'', 16)],
       model_call_stats_hour = None,
       model_call_stats_day = None,
       user_call_stats_hour = None,
       user_call_stats_day = None \<rparr>"

subsection \<open>Python built-ins used by the statistics\<close>

text \<open>
  \<^verbatim>\<open>sorted(xs, key=key, reverse=True)\<close>: descending by key, and elements with equal
  keys keep their original order (Python's sort is stable, also with
  \<^verbatim>\<open>reverse=True\<close>). \<open>sort_key\<close> is a stable insertion sort, ascending.
\<close>

definition sorted_reverse :: "('a \<Rightarrow> 'k::linordered_ab_group_add) \<Rightarrow> 'a list \<Rightarrow> 'a list" where
  "sorted_reverse key xs = sort_key (\<lambda>x. - key x) xs"

text \<open>
  The slice \<^verbatim>\<open>xs[:k]\<close>: the first \<open>k\<close> elements, and for a negative \<open>k\<close> all but the
  last \<open>-k\<close>.
\<close>

definition slice_to :: "int \<Rightarrow> 'a list \<Rightarrow> 'a list" where
  "slice_to k xs =
     (if 0 \<le> k then take (nat k) xs else take (length xs - nat (- k)) xs)"

subsection \<open>Limit table\<close>

definition get_model_call_limit :: "monitor \<Rightarrow> string \<Rightarrow> int" where
  "get_model_call_limit self m =
     (case map_of (model_call_limit_global self) m of
        None \<Rightarrow> - 1
      | Some limit \<Rightarrow> limit)"

text \<open>The returned pair is the boolean result and the monitor after the call.\<close>

definition update_model_call_limit :: "monitor \<Rightarrow> string \<Rightarrow> int \<Rightarrow> bool \<times> monitor" where
  "update_model_call_limit self m limit =
     (case map_of (model_call_limit_global self) m of
        None \<Rightarrow> (False, self)
      | Some _ \<Rightarrow>
          (True, self\<lparr>model_call_limit_global :=
                        AList.update m limit (model_call_limit_global self)\<rparr>))"

subsection \<open>Windowed statistics\<close>

text \<open>
  Each query takes the reading \<open>now\<close> of the clock as an argument. A request is
  skipped when \<^verbatim>\<open>req["tstamp"] < time.time() - most_recent_min * 60\<close>.
\<close>

definition too_old :: "real \<Rightarrow> int \<Rightarrow> real \<Rightarrow> bool" where
  "too_old now most_recent_min t \<longleftrightarrow> t < now - real_of_int (most_recent_min * 60)"

text \<open>The inner loop of \<^verbatim>\<open>get_model_call_stats\<close>: the time stamps that are kept.\<close>

fun recent_tstamps :: "real \<Rightarrow> int \<Rightarrow> model_req list \<Rightarrow> real list" where
  "recent_tstamps now most_recent_min [] = []"
| "recent_tstamps now most_recent_min (req # reqs) =
     (if too_old now most_recent_min (tstamp req)
      then recent_tstamps now most_recent_min reqs
      else tstamp req # recent_tstamps now most_recent_min reqs)"

text \<open>The outer loop over \<^verbatim>\<open>self.model_call.items()\<close>, filling \<^verbatim>\<open>model_call_stats\<close>.\<close>

fun model_stats_loop ::
  "real \<Rightarrow> string option \<Rightarrow> int \<Rightarrow> (string, model_req list) dict \<Rightarrow>
   (string, int) dict \<Rightarrow> (string, int) dict" where
  "model_stats_loop now target_model most_recent_min [] model_call_stats = model_call_stats"
| "model_stats_loop now target_model most_recent_min ((m, reqs) # rest) model_call_stats =
     (if target_model \<noteq> None \<and> Some m \<noteq> target_model
      then model_stats_loop now target_model most_recent_min rest model_call_stats
      else model_stats_loop now target_model most_recent_min rest
             (AList.update m (int (length (recent_tstamps now most_recent_min reqs)))
                model_call_stats))"

text \<open>
  The keys of a dict are distinct, so sorting the keys by their value and building
  \<^verbatim>\<open>{model: model_call_stats[model] for model in top_k_model}\<close> is sorting the items
  by their value.
\<close>

definition get_model_call_stats ::
  "monitor \<Rightarrow> real \<Rightarrow> string option \<Rightarrow> int \<Rightarrow> int option \<Rightarrow> (string, int) dict" where
  "get_model_call_stats self now target_model most_recent_min top_k =
     (let model_call_stats =
            model_stats_loop now target_model most_recent_min (model_call self) []
      in case top_k of
           None \<Rightarrow> model_call_stats
         | Some k \<Rightarrow> slice_to k (sorted_reverse snd model_call_stats))"

text \<open>The inner loop of \<^verbatim>\<open>get_user_call_stats\<close>, filling \<^verbatim>\<open>call_dict\<close>.\<close>

fun count_calls ::
  "real \<Rightarrow> string option \<Rightarrow> int \<Rightarrow> user_req list \<Rightarrow> (string, int) dict \<Rightarrow> (string, int) dict" where
  "count_calls now target_model most_recent_min [] cd = cd"
| "count_calls now target_model most_recent_min (req # reqs) cd =
     (if too_old now most_recent_min (u_tstamp req)
      then count_calls now target_model most_recent_min reqs cd
      else if target_model \<noteq> None \<and> Some (u_model req) \<noteq> target_model
      then count_calls now target_model most_recent_min reqs cd
      else count_calls now target_model most_recent_min reqs
             (case map_of cd (u_model req) of
                None \<Rightarrow> AList.update (u_model req) (0 + 1) cd
              | Some c \<Rightarrow> AList.update (u_model req) (c + 1) cd))"

text \<open>The outer loop over \<^verbatim>\<open>self.user_call.items()\<close>, filling \<^verbatim>\<open>user_call_stats\<close>.\<close>

fun user_stats_loop ::
  "real \<Rightarrow> string option \<Rightarrow> int \<Rightarrow> (string, user_req list) dict \<Rightarrow>
   (string, user_model_call) dict \<Rightarrow> (string, user_model_call) dict" where
  "user_stats_loop now target_model most_recent_min [] user_call_stats = user_call_stats"
| "user_stats_loop now target_model most_recent_min ((u, reqs) # rest) user_call_stats =
     (let cd = count_calls now target_model most_recent_min reqs [];
          user_model_call = \<lparr> call_dict = cd, total_calls = sum_list (map snd cd) \<rparr>
      in if total_calls user_model_call > 0
         then user_stats_loop now target_model most_recent_min rest
                (AList.update u user_model_call user_call_stats)
         else user_stats_loop now target_model most_recent_min rest user_call_stats)"

definition get_user_call_stats ::
  "monitor \<Rightarrow> real \<Rightarrow> string option \<Rightarrow> int \<Rightarrow> int option \<Rightarrow> (string, user_model_call) dict" where
  "get_user_call_stats self now target_model most_recent_min top_k =
     (let user_call_stats =
            user_stats_loop now target_model most_recent_min (user_call self) []
      in case top_k of
           None \<Rightarrow> user_call_stats
         | Some k \<Rightarrow> slice_to k (sorted_reverse (\<lambda>x. total_calls (snd x)) user_call_stats))"

definition get_num_users :: "monitor \<Rightarrow> real \<Rightarrow> int \<Rightarrow> int" where
  "get_num_users self now most_recent_min =
     int (length (get_user_call_stats self now None most_recent_min None))"

subsection \<open>Quota checks\<close>

text \<open>
  Reading a cached view that was never assigned raises \<^verbatim>\<open>AttributeError\<close>. The
  checks run in the order of the source, so an earlier \<^verbatim>\<open>return False\<close> wins over a
  later fault.
\<close>

definition is_model_limit_reached :: "monitor \<Rightarrow> string \<Rightarrow> error + bool" where
  "is_model_limit_reached self m =
     (case map_of (model_call_limit_global self) m of
        None \<Rightarrow> Inr False
      | Some limit \<Rightarrow>
          (case model_call_stats_hour self of
             None \<Rightarrow> Inl (AttributeError ''model_call_stats_hour'')
           | Some stats_hour \<Rightarrow>
               (case map_of stats_hour m of
                  None \<Rightarrow> Inr False
                | Some n \<Rightarrow> if n \<ge> limit then Inr True else Inr False)))"

definition is_user_limit_reached :: "monitor \<Rightarrow> string \<Rightarrow> string \<Rightarrow> error + bool" where
  "is_user_limit_reached self m uid =
     (case map_of (model_call_day_limit_per_user self) m of
        None \<Rightarrow> Inr False
      | Some limit \<Rightarrow>
          (case user_call_stats_day self of
             None \<Rightarrow> Inl (AttributeError ''user_call_stats_day'')
           | Some stats_day \<Rightarrow>
               (case map_of stats_day uid of
                  None \<Rightarrow> Inr False
                | Some user_model_call \<Rightarrow>
                    (case map_of (call_dict user_model_call) m of
                       None \<Rightarrow> Inr False
                     | Some n \<Rightarrow> if n \<ge> limit then Inr True else Inr False))))"

subsection \<open>The refresh cycle\<close>

text \<open>
  The file system as the cycle sees it: for every log directory the \<^verbatim>\<open>*.json\<close>
  files that \<^verbatim>\<open>glob\<close> finds, each with its creation time and its lines.
\<close>

type_synonym log_file = "real \<times> log_line list"
type_synonym filesystem = "string \<Rightarrow> log_file list"

text \<open>The first loop of a cycle: the \<^verbatim>\<open>num_file\<close> newest files of every directory.\<close>

definition select_files :: "int \<Rightarrow> filesystem \<Rightarrow> string list \<Rightarrow> log_file list" where
  "select_files num_file fs dirs =
     concat (map (\<lambda>log_dir. slice_to num_file (sorted_reverse fst (fs log_dir))) dirs)"

text \<open>\<^verbatim>\<open>if k not in d: d[k] = []\<close> followed by \<^verbatim>\<open>d[k].append(v)\<close>.\<close>

definition append_req :: "'k \<Rightarrow> 'v \<Rightarrow> ('k, 'v list) dict \<Rightarrow> ('k, 'v list) dict" where
  "append_req k v d =
     (case map_of d k of
        None \<Rightarrow> AList.update k ([] @ [v]) d
      | Some vs \<Rightarrow> AList.update k (vs @ [v]) d)"

type_synonym indices = "(string, model_req list) dict \<times> (string, user_req list) dict"

text \<open>
  The body of the loop over the lines. Nothing catches an exception, so a line that
  \<^verbatim>\<open>json.loads\<close> rejects, and a key that is missing, end the loop with the error.
  The keys are read in the order \<^verbatim>\<open>type\<close>, \<^verbatim>\<open>model\<close>, \<^verbatim>\<open>tstamp\<close>, \<^verbatim>\<open>ip\<close>.
\<close>

fun read_line :: "log_line \<Rightarrow> indices \<Rightarrow> error + indices" where
  "read_line NotJson (mc, uc) = Inl JSONDecodeError"
| "read_line NotObject (mc, uc) = Inl TypeError"
| "read_line (Object obj) (mc, uc) =
     (case obj_type obj of
        None \<Rightarrow> Inl (KeyError ''type'')
      | Some ty \<Rightarrow>
          if ty \<noteq> ''chat'' then Inr (mc, uc)
          else (case obj_model obj of
                  None \<Rightarrow> Inl (KeyError ''model'')
                | Some m \<Rightarrow>
                    (case obj_tstamp obj of
                       None \<Rightarrow> Inl (KeyError ''tstamp'')
                     | Some t \<Rightarrow>
                         (case obj_ip obj of
                            None \<Rightarrow> Inl (KeyError ''ip'')
                          | Some ip \<Rightarrow>
                              Inr (append_req m \<lparr> tstamp = t, user_id = ip \<rparr> mc,
                                   append_req ip \<lparr> u_tstamp = t, u_model = m \<rparr> uc)))))"

fun read_lines :: "log_line list \<Rightarrow> indices \<Rightarrow> error + indices" where
  "read_lines [] idx = Inr idx"
| "read_lines (line # lines) idx =
     (case read_line line idx of
        Inl e \<Rightarrow> Inl e
      | Inr idx' \<Rightarrow> read_lines lines idx')"

fun read_files :: "log_file list \<Rightarrow> indices \<Rightarrow> error + indices" where
  "read_files [] idx = Inr idx"
| "read_files (json_file # json_files) idx =
     (case read_lines (snd json_file) idx of
        Inl e \<Rightarrow> Inl e
      | Inr idx' \<Rightarrow> read_files json_files idx')"

text \<open>
  One pass through the body of \<^verbatim>\<open>while True\<close>, up to the \<^verbatim>\<open>await\<close>: the indices are
  built in local variables, then six attributes are assigned one after the other.
  The clock is read once for the whole cycle.
\<close>

definition update_stats_cycle :: "int \<Rightarrow> real \<Rightarrow> filesystem \<Rightarrow> monitor \<Rightarrow> error + monitor" where
  "update_stats_cycle num_file now fs self =
     (case read_files (select_files num_file fs (log_dir_list self)) ([], []) of
        Inl e \<Rightarrow> Inl e
      | Inr (model_call', user_call') \<Rightarrow>
          (let s1 = self\<lparr>model_call := model_call'\<rparr>;
               s2 = s1\<lparr>model_call_stats_hour := Some (get_model_call_stats s1 now None 60 None)\<rparr>;
               s3 = s2\<lparr>model_call_stats_day :=
                          Some (get_model_call_stats s2 now None (24 * 60) None)\<rparr>;
               s4 = s3\<lparr>user_call := user_call'\<rparr>;
               s5 = s4\<lparr>user_call_stats_hour := Some (get_user_call_stats s4 now None 60 None)\<rparr>;
               s6 = s5\<lparr>user_call_stats_day :=
                          Some (get_user_call_stats s5 now None (24 * 60) None)\<rparr>
           in Inr s6))"

text \<open>
  The coroutine \<^verbatim>\<open>update_stats\<close> never returns; it is run here along a finite list of
  wake-ups, each with the clock and the file system it finds. After the list the task
  is either still alive, asleep until the next wake-up, or it has ended with the
  exception that left the loop.
\<close>

datatype task = Running | Terminated error

fun update_stats :: "int \<Rightarrow> (real \<times> filesystem) list \<Rightarrow> monitor \<Rightarrow> task \<times> monitor" where
  "update_stats num_file [] self = (Running, self)"
| "update_stats num_file ((now, fs) # wakeups) self =
     (case update_stats_cycle num_file now fs self of
        Inl e \<Rightarrow> (Terminated e, self)
      | Inr self' \<Rightarrow> update_stats num_file wakeups self')"

subsection \<open>The endpoints\<close>

text \<open>
  The reason string \<^verbatim>\<open>f"MODEL_HOURLY_LIMIT ({model}): {limit}"\<close> is kept as its tag
  and its two arguments.
\<close>

datatype reason = MODEL_HOURLY_LIMIT string int | USER_DAILY_LIMIT string int

datatype request =
    Get_model_call_limit string
  | Update_model_call_limit string int
  | Is_limit_reached string string
  | Get_num_users_hr
  | Get_num_users_day
  | Get_user_call_stats "string option" int "int option"
  | Get_model_call_stats "string option" int "int option"

datatype response =
    Model_call_limit string int
  | Success bool
  | Limit_reached bool "reason option"
  | Num_users int
  | User_call_stats "(string, user_model_call) dict"
  | Model_call_stats "(string, int) dict"

definition is_limit_reached :: "monitor \<Rightarrow> string \<Rightarrow> string \<Rightarrow> error + response" where
  "is_limit_reached self m uid =
     (case is_model_limit_reached self m of
        Inl e \<Rightarrow> Inl e
      | Inr True \<Rightarrow>
          Inr (Limit_reached True (Some (MODEL_HOURLY_LIMIT m (get_model_call_limit self m))))
      | Inr False \<Rightarrow>
          (case is_user_limit_reached self m uid of
             Inl e \<Rightarrow> Inl e
           | Inr True \<Rightarrow>
               (case map_of (model_call_day_limit_per_user self) m of
                  None \<Rightarrow> Inl (KeyError m)
                | Some limit \<Rightarrow> Inr (Limit_reached True (Some (USER_DAILY_LIMIT m limit))))
           | Inr False \<Rightarrow> Inr (Limit_reached False None)))"

text \<open>The endpoints \<^verbatim>\<open>/get_num_users_hr\<close> and \<^verbatim>\<open>/get_num_users_day\<close>.\<close>

definition get_num_users_hr :: "monitor \<Rightarrow> error + response" where
  "get_num_users_hr self =
     (case user_call_stats_hour self of
        None \<Rightarrow> Inl (AttributeError ''user_call_stats_hour'')
      | Some stats \<Rightarrow> Inr (Num_users (int (length stats))))"

definition get_num_users_day :: "monitor \<Rightarrow> error + response" where
  "get_num_users_day self =
     (case user_call_stats_day self of
        None \<Rightarrow> Inl (AttributeError ''user_call_stats_day'')
      | Some stats \<Rightarrow> Inr (Num_users (int (length stats))))"

text \<open>One request: the reply, or the exception, and the monitor afterwards.\<close>

fun serve :: "monitor \<Rightarrow> real \<Rightarrow> request \<Rightarrow> (error + response) \<times> monitor" where
  "serve self now (Get_model_call_limit m) =
     (Inr (Model_call_limit m (get_model_call_limit self m)), self)"
| "serve self now (Update_model_call_limit m limit) =
     (case update_model_call_limit self m limit of
        (ok, self') \<Rightarrow> (Inr (Success ok), self'))"
| "serve self now (Is_limit_reached m uid) = (is_limit_reached self m uid, self)"
| "serve self now Get_num_users_hr = (get_num_users_hr self, self)"
| "serve self now Get_num_users_day = (get_num_users_day self, self)"
| "serve self now (Get_user_call_stats target most_recent_min top_k) =
     (Inr (User_call_stats (get_user_call_stats self now target most_recent_min top_k)), self)"
| "serve self now (Get_model_call_stats target most_recent_min top_k) =
     (Inr (Model_call_stats (get_model_call_stats self now target most_recent_min top_k)), self)"

text \<open>
  The life of the process: requests and wake-ups of the refresh task (started with
  \<^verbatim>\<open>update_stats(2)\<close>) in any order. A task that has ended does not wake up again.
\<close>

datatype event = Request real request | Wakeup real filesystem

fun step :: "task \<times> monitor \<Rightarrow> event \<Rightarrow> task \<times> monitor" where
  "step (t, self) (Request now req) = (t, snd (serve self now req))"
| "step (Running, self) (Wakeup now fs) =
     (case update_stats_cycle 2 now fs self of
        Inl e \<Rightarrow> (Terminated e, self)
      | Inr self' \<Rightarrow> (Running, self'))"
| "step (Terminated e, self) (Wakeup now fs) = (Terminated e, self)"

definition run :: "task \<times> monitor \<Rightarrow> event list \<Rightarrow> task \<times> monitor" where
  "run = foldl step"

subsection \<open>Example states\<close>

definition quota_example :: monitor where
  "quota_example =
     (Monitor_init [])
       \<lparr> model_call_limit_global := [(''m1'', 5)],
         model_call_day_limit_per_user := [(''m1'', 2)],
         model_call_stats_hour := Some [(''m1'', 5)],
         user_call_stats_day :=
           Some [(''u1'', \<lparr> call_dict = [(''m1'', 3)], total_calls = 3 \<rparr>)] \<rparr>"

definition chat_line :: "string \<Rightarrow> real \<Rightarrow> string \<Rightarrow> log_line" where
  "chat_line m t ip =
     Object \<lparr> obj_type = Some ''chat'', obj_model = Some m, obj_tstamp = Some t,
              obj_ip = Some ip \<rparr>"

definition clean_fs :: filesystem where
  "clean_fs =
     (\<lambda>log_dir. if log_dir = ''server0''
        then [(1, [chat_line ''m0'' 10 ''u0'']),
              (2, [chat_line ''m1'' (100000 - 10) ''u1'',
                   Object \<lparr> obj_type = Some ''upvote'', obj_model = None, obj_tstamp = None,
                            obj_ip = None \<rparr>])]
        else [])"

definition corrupt_fs :: filesystem where
  "corrupt_fs =
     (\<lambda>log_dir. if log_dir = ''server0''
        then [(1, [chat_line ''m1'' (100000 - 10) ''u1'',
                   NotJson,
                   chat_line ''m1'' (100000 - 5) ''u2''])]
        else [])"

definition incomplete_fs :: filesystem where
  "incomplete_fs =
     (\<lambda>log_dir. if log_dir = ''server0''
        then [(1, [Object \<lparr> obj_type = Some ''chat'', obj_model = Some ''m1'',
                            obj_tstamp = Some (100000 - 10), obj_ip = None \<rparr>,
                   chat_line ''m1'' (100000 - 5) ''u2''])]
        else [])"

section \<open>Properties\<close>

subsection \<open>Dictionaries, sorting and slicing\<close>







lemma set_sorted_reverse: "set (sorted_reverse key xs) = set xs"
  by (simp add: sorted_reverse_def)

lemma length_sorted_reverse: "length (sorted_reverse key xs) = length xs"
  by (simp add: sorted_reverse_def)

lemma distinct_sorted_reverse:
  "distinct (map fst (sorted_reverse key xs)) = distinct (map fst xs)"
proof -
  have "set (map fst (sorted_reverse key xs)) = set (map fst xs)"
    and "length (map fst (sorted_reverse key xs)) = length (map fst xs)"
    by (simp_all add: set_sorted_reverse length_sorted_reverse)
  then show ?thesis by (metis card_distinct distinct_card)
qed







lemma count_calls_distinct:
  "distinct (map fst cd) \<Longrightarrow> distinct (map fst (count_calls now tm w reqs cd))"
proof (induction reqs arbitrary: cd)
  case Nil
  then show ?case by simp
next
  case (Cons r reqs)
  then show ?case
    by (cases "map_of cd (u_model r)") (auto simp: AList.distinct_update)
qed


subsection \<open>Limit table and quota checks\<close>

lemma update_model_call_limit_keys:
  "fst ` set (model_call_limit_global (snd (update_model_call_limit self m v))) =
   fst ` set (model_call_limit_global self)"
proof (cases "map_of (model_call_limit_global self) m")
  case None
  then show ?thesis by (simp add: update_model_call_limit_def)
next
  case (Some a)
  then have "m \<in> fst ` set (model_call_limit_global self)"
    by (metis map_of_eq_None_iff option.distinct(1))
  with Some show ?thesis
    by (auto simp: update_model_call_limit_def AList.dom_update)
qed

lemma update_stats_cycle_limits:
  "update_stats_cycle n now fs self = Inr self' \<Longrightarrow>
   model_call_limit_global self' = model_call_limit_global self \<and>
   model_call_day_limit_per_user self' = model_call_day_limit_per_user self"
  by (auto simp: update_stats_cycle_def Let_def split: sum.splits prod.splits)

lemma serve_keys:
  "fst ` set (model_call_limit_global (snd (serve self now req))) =
   fst ` set (model_call_limit_global self)"
proof (cases req)
  case (Update_model_call_limit m v)
  then show ?thesis
    using update_model_call_limit_keys [of self m v]
    by (cases "update_model_call_limit self m v") simp
qed simp_all

lemma step_keys:
  "fst ` set (model_call_limit_global (snd (step ts ev))) =
   fst ` set (model_call_limit_global (snd ts))"
proof (cases ts)
  case (Pair t self)
  show ?thesis
  proof (cases ev)
    case (Request now req)
    with Pair show ?thesis by (simp add: serve_keys)
  next
    case (Wakeup now fs)
    show ?thesis
    proof (cases t)
      case Running
      show ?thesis
      proof (cases "update_stats_cycle 2 now fs self")
        case (Inl e)
        with Pair Wakeup Running show ?thesis by simp
      next
        case (Inr self')
        with Pair Wakeup Running update_stats_cycle_limits [OF Inr] show ?thesis by simp
      qed
    next
      case (Terminated e)
      with Pair Wakeup show ?thesis by simp
    qed
  qed
qed

lemma run_keys:
  "fst ` set (model_call_limit_global (snd (run ts evs))) =
   fst ` set (model_call_limit_global (snd ts))"
  unfolding run_def
  by (induction evs arbitrary: ts) (simp_all add: step_keys)

text \<open>
  Claim C4. \<^verbatim>\<open>update_model_call_limit\<close> returns true and overwrites the ceiling
  when the model has an entry in the global limit table; when the model has none it
  returns false, the monitor is unchanged, and \<^verbatim>\<open>get_model_call_limit\<close> still
  answers \<open>-1\<close>. After any sequence of requests and refresh cycles the table has
  the keys it had before.
\<close>

theorem update_model_call_limit_closed_world:
  "(map_of (model_call_limit_global self) m \<noteq> None \<longrightarrow>
      fst (update_model_call_limit self m v) = True \<and>
      map_of (model_call_limit_global (snd (update_model_call_limit self m v))) =
        (map_of (model_call_limit_global self))(m \<mapsto> v) \<and>
      get_model_call_limit (snd (update_model_call_limit self m v)) m = v) \<and>
   (map_of (model_call_limit_global self) m = None \<longrightarrow>
      update_model_call_limit self m v = (False, self) \<and>
      get_model_call_limit (snd (update_model_call_limit self m v)) m = - 1) \<and>
   fst ` set (model_call_limit_global (snd (run (t, self) events))) =
     fst ` set (model_call_limit_global self)"
proof (intro conjI impI)
  assume "map_of (model_call_limit_global self) m \<noteq> None"
  then obtain old where old: "map_of (model_call_limit_global self) m = Some old"
    by blast
  show "fst (update_model_call_limit self m v) = True"
    using old by (simp add: update_model_call_limit_def)
  show "map_of (model_call_limit_global (snd (update_model_call_limit self m v))) =
        (map_of (model_call_limit_global self))(m \<mapsto> v)"
    using old by (simp add: update_model_call_limit_def AList.update_conv')
  show "get_model_call_limit (snd (update_model_call_limit self m v)) m = v"
    using old
    by (simp add: update_model_call_limit_def get_model_call_limit_def AList.update_conv')
next
  assume none: "map_of (model_call_limit_global self) m = None"
  show "update_model_call_limit self m v = (False, self)"
    using none by (simp add: update_model_call_limit_def)
  show "get_model_call_limit (snd (update_model_call_limit self m v)) m = - 1"
    using none by (simp add: update_model_call_limit_def get_model_call_limit_def)
next
  show "fst ` set (model_call_limit_global (snd (run (t, self) events))) =
     fst ` set (model_call_limit_global self)"
    using run_keys [of "(t, self)" events] by simp
qed

text \<open>
  At the constructed monitor: an unknown model is refused, a configured one updated,
  and after a run with both updates and a refresh the unknown model is still no key.
\<close>

theorem update_model_call_limit_closed_world_witness:
  "update_model_call_limit (Monitor_init []) ''nonexistent-model'' 10 = (False, Monitor_init []) \<and>
   get_model_call_limit (snd (update_model_call_limit (Monitor_init []) ''nonexistent-model'' 10))
     ''nonexistent-model'' = - 1 \<and>
   fst (update_model_call_limit (Monitor_init []) ''yi-large'' 10) = True \<and>
   get_model_call_limit (snd (update_model_call_limit (Monitor_init []) ''yi-large'' 10))
     ''yi-large'' = 10 \<and>
   ''nonexistent-model'' \<notin>
     fst ` set (model_call_limit_global
                 (snd (run (Running, Monitor_init [''server0''])
                         [Request 100000 (Update_model_call_limit ''nonexistent-model'' 10),
                          Wakeup 100000 clean_fs,
                          Request 100001 (Update_model_call_limit ''yi-large'' 10),
                          Request 100002 (Is_limit_reached ''nonexistent-model'' ''u1'')])))"
proof -
  have absent: "map_of (model_call_limit_global (Monitor_init [])) ''nonexistent-model'' = None"
    by (simp add: Monitor_init_def)
  have present: "map_of (model_call_limit_global (Monitor_init [])) ''yi-large'' \<noteq> None"
    by (simp add: Monitor_init_def)
  have keys: "''nonexistent-model'' \<notin>
                fst ` set (model_call_limit_global (Monitor_init [''server0'']))"
    by (simp add: Monitor_init_def)
  show ?thesis
    using update_model_call_limit_closed_world
            [of "Monitor_init []" "''nonexistent-model''" 10 Running "[]"]
          update_model_call_limit_closed_world
            [of "Monitor_init []" "''yi-large''" 10 Running "[]"]
          update_model_call_limit_closed_world
            [of "Monitor_init [''server0'']" "''yi-large''" 10 Running
                "[Request 100000 (Update_model_call_limit ''nonexistent-model'' 10),
                  Wakeup 100000 clean_fs,
                  Request 100001 (Update_model_call_limit ''yi-large'' 10),
                  Request 100002 (Is_limit_reached ''nonexistent-model'' ''u1'')]"]
          absent present keys
    by blast
qed

text \<open>
  Claim C1. \<^verbatim>\<open>is_model_limit_reached\<close> answers false for a model without an entry in
  the global limit table. For a configured model, once the hourly view is cached, it
  answers true exactly when the view holds a count for the model that is at least
  the ceiling: a count equal to the ceiling gives true, a count one below it false.
\<close>

theorem is_model_limit_reached_inclusive:
  "(map_of (model_call_limit_global self) m = None \<longrightarrow>
      is_model_limit_reached self m = Inr False) \<and>
   (\<forall>limit stats_hour.
      map_of (model_call_limit_global self) m = Some limit \<and>
      model_call_stats_hour self = Some stats_hour \<longrightarrow>
        is_model_limit_reached self m =
          Inr (\<exists>n. map_of stats_hour m = Some n \<and> limit \<le> n) \<and>
        (map_of stats_hour m = Some limit \<longrightarrow> is_model_limit_reached self m = Inr True) \<and>
        (map_of stats_hour m = Some (limit - 1) \<longrightarrow>
           is_model_limit_reached self m = Inr False))"
  by (auto simp: is_model_limit_reached_def split: option.splits)

text \<open>
  A ceiling of 5: five calls reach it, four do not, and an unconfigured model is
  never limited.
\<close>

theorem is_model_limit_reached_inclusive_witness:
  "is_model_limit_reached quota_example ''m1'' = Inr True \<and>
   is_model_limit_reached (quota_example\<lparr>model_call_stats_hour := Some [(''m1'', 4)]\<rparr>) ''m1'' =
     Inr False \<and>
   is_model_limit_reached quota_example ''m2'' = Inr False"
proof -
  have "map_of (model_call_limit_global quota_example) ''m1'' = Some 5"
    and "model_call_stats_hour quota_example = Some [(''m1'', 5)]"
    and "map_of (model_call_limit_global quota_example) ''m2'' = None"
    by (simp_all add: quota_example_def)
  then show ?thesis
    using is_model_limit_reached_inclusive [of quota_example "''m1''"]
      is_model_limit_reached_inclusive
        [of "quota_example\<lparr>model_call_stats_hour := Some [(''m1'', 4)]\<rparr>" "''m1''"]
      is_model_limit_reached_inclusive [of quota_example "''m2''"]
    by simp
qed

text \<open>
  Claim C2. When the model-level hourly check fires, the combined query reports
  \<^verbatim>\<open>MODEL_HOURLY_LIMIT\<close> with the hourly ceiling, and the user-level check is not
  evaluated: the answer is the same whatever the daily user view and the per-user
  table are, also where reading them would fault or would report the user over the
  daily limit.
\<close>

theorem is_limit_reached_model_first:
  assumes "is_model_limit_reached self m = Inr True"
  shows "is_limit_reached self m uid =
           Inr (Limit_reached True (Some (MODEL_HOURLY_LIMIT m (get_model_call_limit self m)))) \<and>
         (\<forall>stats_day day_limits.
            is_limit_reached
              (self\<lparr>user_call_stats_day := stats_day,
                    model_call_day_limit_per_user := day_limits\<rparr>) m uid =
            is_limit_reached self m uid)"
proof -
  have same: "is_model_limit_reached
                (self\<lparr>user_call_stats_day := stats_day,
                      model_call_day_limit_per_user := day_limits\<rparr>) m =
              is_model_limit_reached self m" for stats_day day_limits
    by (simp add: is_model_limit_reached_def split: option.splits)
  have limit: "get_model_call_limit
                (self\<lparr>user_call_stats_day := stats_day,
                      model_call_day_limit_per_user := day_limits\<rparr>) m =
              get_model_call_limit self m" for stats_day day_limits
    by (simp add: get_model_call_limit_def)
  show ?thesis
    using assms by (simp add: is_limit_reached_def same limit del: monitor.simps)
qed

text \<open>
  Both limits are exceeded and the model-level reason is reported; with the hourly
  count below its ceiling the same user gets the user-level reason.
\<close>

theorem is_limit_reached_model_first_witness:
  "is_model_limit_reached quota_example ''m1'' = Inr True \<and>
   is_user_limit_reached quota_example ''m1'' ''u1'' = Inr True \<and>
   is_limit_reached quota_example ''m1'' ''u1'' =
     Inr (Limit_reached True (Some (MODEL_HOURLY_LIMIT ''m1'' 5))) \<and>
   is_limit_reached (quota_example\<lparr>model_call_stats_hour := Some [(''m1'', 4)]\<rparr>) ''m1'' ''u1'' =
     Inr (Limit_reached True (Some (USER_DAILY_LIMIT ''m1'' 2)))"
proof -
  have m: "is_model_limit_reached quota_example ''m1'' = Inr True"
    by (simp add: quota_example_def is_model_limit_reached_def)
  have u: "is_user_limit_reached quota_example ''m1'' ''u1'' = Inr True"
    by (simp add: quota_example_def is_user_limit_reached_def)
  have l: "get_model_call_limit quota_example ''m1'' = 5"
    by (simp add: quota_example_def get_model_call_limit_def)
  have o: "is_limit_reached (quota_example\<lparr>model_call_stats_hour := Some [(''m1'', 4)]\<rparr>)
             ''m1'' ''u1'' = Inr (Limit_reached True (Some (USER_DAILY_LIMIT ''m1'' 2)))"
    by (simp add: quota_example_def is_limit_reached_def is_model_limit_reached_def
          is_user_limit_reached_def)
  show ?thesis
    using is_limit_reached_model_first [OF m, of "''u1''"] m u l o by simp
qed

text \<open>
  Claim C3. \<^verbatim>\<open>is_user_limit_reached\<close> answers false when the model has no per-user
  daily ceiling, when the user has no entry in the cached daily user view, and when
  the user's \<^verbatim>\<open>call_dict\<close> has no entry for the model; otherwise it answers true
  exactly when the user's daily count for the model is at least the ceiling of the
  model, which does not depend on the user.
\<close>

theorem is_user_limit_reached_daily:
  "(map_of (model_call_day_limit_per_user self) m = None \<longrightarrow>
      is_user_limit_reached self m uid = Inr False) \<and>
   (\<forall>limit stats_day.
      map_of (model_call_day_limit_per_user self) m = Some limit \<and>
      user_call_stats_day self = Some stats_day \<longrightarrow>
        (map_of stats_day uid = None \<longrightarrow> is_user_limit_reached self m uid = Inr False) \<and>
        (\<forall>umc. map_of stats_day uid = Some umc \<longrightarrow>
           (map_of (call_dict umc) m = None \<longrightarrow> is_user_limit_reached self m uid = Inr False) \<and>
           (\<forall>n. map_of (call_dict umc) m = Some n \<longrightarrow>
              is_user_limit_reached self m uid = Inr (limit \<le> n))))"
  by (auto simp: is_user_limit_reached_def split: option.splits)

text \<open>
  A daily ceiling of 2 and a user with three calls; the three ways of not being
  limited; and a ceiling of 4 that three calls do not reach.
\<close>

theorem is_user_limit_reached_daily_witness:
  "is_user_limit_reached quota_example ''m1'' ''u1'' = Inr True \<and>
   is_user_limit_reached quota_example ''m1'' ''u2'' = Inr False \<and>
   is_user_limit_reached quota_example ''m2'' ''u1'' = Inr False \<and>
   is_user_limit_reached
     (quota_example\<lparr>model_call_day_limit_per_user := [(''m1'', 2), (''m2'', 2)]\<rparr>)
     ''m2'' ''u1'' = Inr False \<and>
   is_user_limit_reached
     (quota_example\<lparr>model_call_day_limit_per_user := [(''m1'', 4)]\<rparr>) ''m1'' ''u1'' = Inr False"
proof -
  let ?s2 = "quota_example\<lparr>model_call_day_limit_per_user := [(''m1'', 2), (''m2'', 2)]\<rparr>"
  let ?s3 = "quota_example\<lparr>model_call_day_limit_per_user := [(''m1'', 4)]\<rparr>"
  let ?day = "[(''u1'', \<lparr> call_dict = [(''m1'', 3)], total_calls = 3 \<rparr>)]"
  have "map_of (model_call_day_limit_per_user quota_example) ''m1'' = Some 2"
    and "map_of (model_call_day_limit_per_user quota_example) ''m2'' = None"
    and "map_of (model_call_day_limit_per_user ?s2) ''m2'' = Some 2"
    and "map_of (model_call_day_limit_per_user ?s3) ''m1'' = Some 4"
    and "user_call_stats_day quota_example = Some ?day"
    and "user_call_stats_day ?s2 = Some ?day"
    and "user_call_stats_day ?s3 = Some ?day"
    by (simp_all add: quota_example_def)
  then show ?thesis
    using is_user_limit_reached_daily [of quota_example "''m1''" "''u1''"]
      is_user_limit_reached_daily [of quota_example "''m1''" "''u2''"]
      is_user_limit_reached_daily [of quota_example "''m2''" "''u1''"]
      is_user_limit_reached_daily [of ?s2 "''m2''" "''u1''"]
      is_user_limit_reached_daily [of ?s3 "''m1''" "''u1''"]
    by simp
qed

subsection \<open>Windowed statistics and ranking\<close>
















lemma log_dir_list_init [simp]: "log_dir_list (Monitor_init dirs) = dirs"
  by (simp add: Monitor_init_def)








subsection \<open>The refresh task and the initial state\<close>

text \<open>
  The indices are dicts: their keys stay distinct through every refresh cycle and
  every request, starting from the constructor.
\<close>

lemma append_req_distinct:
  "distinct (map fst d) \<Longrightarrow> distinct (map fst (append_req k v d))"
  by (simp add: append_req_def AList.distinct_update split: option.splits)

lemma read_line_distinct:
  assumes "read_line line (mc, uc) = Inr (mc', uc')"
    and "distinct (map fst mc)" and "distinct (map fst uc)"
  shows "distinct (map fst mc') \<and> distinct (map fst uc')"
proof (cases line)
  case (Object obj)
  with assms show ?thesis
    by (auto simp: append_req_distinct split: option.splits if_splits)
qed (use assms in simp_all)

lemma read_lines_distinct:
  "read_lines lines idx = Inr idx' \<Longrightarrow>
   distinct (map fst (fst idx)) \<and> distinct (map fst (snd idx)) \<Longrightarrow>
   distinct (map fst (fst idx')) \<and> distinct (map fst (snd idx'))"
proof (induction lines arbitrary: idx)
  case Nil
  then show ?case by simp
next
  case (Cons line lines)
  from Cons.prems(1) obtain idx1 where 1: "read_line line idx = Inr idx1"
    and 2: "read_lines lines idx1 = Inr idx'"
    by (auto split: sum.splits)
  from 1 Cons.prems(2) read_line_distinct [of line "fst idx" "snd idx" "fst idx1" "snd idx1"]
  have "distinct (map fst (fst idx1)) \<and> distinct (map fst (snd idx1))" by simp
  from Cons.IH [OF 2 this] show ?case .
qed

lemma read_files_distinct:
  "read_files json_files idx = Inr idx' \<Longrightarrow>
   distinct (map fst (fst idx)) \<and> distinct (map fst (snd idx)) \<Longrightarrow>
   distinct (map fst (fst idx')) \<and> distinct (map fst (snd idx'))"
proof (induction json_files arbitrary: idx)
  case Nil
  then show ?case by simp
next
  case (Cons json_file json_files)
  from Cons.prems(1) obtain idx1 where 1: "read_lines (snd json_file) idx = Inr idx1"
    and 2: "read_files json_files idx1 = Inr idx'"
    by (auto split: sum.splits)
  from Cons.IH [OF 2 read_lines_distinct [OF 1 Cons.prems(2)]] show ?case .
qed

lemma update_stats_cycle_distinct:
  assumes "update_stats_cycle num_file now fs self = Inr self'"
  shows "distinct (map fst (model_call self')) \<and> distinct (map fst (user_call self'))"
proof -
  from assms obtain idx' where
    r: "read_files (select_files num_file fs (log_dir_list self)) ([], []) = Inr idx'"
    and m: "model_call self' = fst idx'" and u: "user_call self' = snd idx'"
    by (auto simp: update_stats_cycle_def Let_def split: sum.splits prod.splits)
  from read_files_distinct [OF r] m u show ?thesis by simp
qed

lemma serve_indices:
  "model_call (snd (serve self now req)) = model_call self \<and>
   user_call (snd (serve self now req)) = user_call self"
  by (cases req) (auto simp: update_model_call_limit_def split: option.splits)

lemma step_distinct:
  assumes "distinct (map fst (model_call (snd ts))) \<and> distinct (map fst (user_call (snd ts)))"
  shows "distinct (map fst (model_call (snd (step ts ev)))) \<and>
         distinct (map fst (user_call (snd (step ts ev))))"
proof (cases ts)
  case (Pair t self)
  show ?thesis
  proof (cases ev)
    case (Request now req)
    with Pair assms show ?thesis by (simp add: serve_indices)
  next
    case (Wakeup now fs)
    show ?thesis
    proof (cases t)
      case Running
      show ?thesis
      proof (cases "update_stats_cycle 2 now fs self")
        case (Inl e)
        with Pair Wakeup Running assms show ?thesis by simp
      next
        case (Inr self')
        with Pair Wakeup Running update_stats_cycle_distinct [OF Inr] show ?thesis by simp
      qed
    next
      case (Terminated e)
      with Pair Wakeup assms show ?thesis by simp
    qed
  qed
qed

lemma run_distinct:
  "distinct (map fst (model_call (snd ts))) \<and> distinct (map fst (user_call (snd ts))) \<Longrightarrow>
   distinct (map fst (model_call (snd (run ts evs)))) \<and>
   distinct (map fst (user_call (snd (run ts evs))))"
  unfolding run_def
proof (induction evs arbitrary: ts)
  case Nil
  then show ?case by simp
next
  case (Cons ev evs)
  from Cons.IH [OF step_distinct [OF Cons.prems]] show ?case by simp
qed

lemma reachable_distinct:
  "distinct (map fst (model_call (snd (run (Running, Monitor_init dirs) evs)))) \<and>
   distinct (map fst (user_call (snd (run (Running, Monitor_init dirs) evs))))"
  by (rule run_distinct) (simp add: Monitor_init_def)

text \<open>
  After a cycle that completes, the four cached views are the statistics of the
  indices of that same cycle.
\<close>

lemma update_stats_cycle_views:
  assumes "update_stats_cycle num_file now fs self = Inr self'"
  shows "model_call_stats_hour self' = Some (get_model_call_stats self' now None 60 None) \<and>
         model_call_stats_day self' = Some (get_model_call_stats self' now None (24 * 60) None) \<and>
         user_call_stats_hour self' = Some (get_user_call_stats self' now None 60 None) \<and>
         user_call_stats_day self' = Some (get_user_call_stats self' now None (24 * 60) None)"
  using assms
  by (auto simp: update_stats_cycle_def Let_def get_model_call_stats_def
        get_user_call_stats_def split: sum.splits prod.splits)

lemma read_lines_malformed:
  "NotJson \<in> set lines \<Longrightarrow> \<exists>e. read_lines lines idx = Inl e"
proof (induction lines arbitrary: idx)
  case Nil
  then show ?case by simp
next
  case (Cons line lines)
  show ?case
  proof (cases "read_line line idx")
    case (Inl e)
    then show ?thesis by simp
  next
    case (Inr idx')
    then have "line \<noteq> NotJson" by (cases idx) auto
    with Cons.prems have "NotJson \<in> set lines" by simp
    from Cons.IH [OF this, of idx'] Inr show ?thesis by simp
  qed
qed

lemma read_files_malformed:
  "NotJson \<in> set (concat (map snd json_files)) \<Longrightarrow> \<exists>e. read_files json_files idx = Inl e"
proof (induction json_files arbitrary: idx)
  case Nil
  then show ?case by simp
next
  case (Cons json_file json_files)
  show ?case
  proof (cases "read_lines (snd json_file) idx")
    case (Inl e)
    then show ?thesis by simp
  next
    case (Inr idx')
    with read_lines_malformed [of "snd json_file" idx]
    have "NotJson \<notin> set (snd json_file)" by auto
    with Cons.prems have "NotJson \<in> set (concat (map snd json_files))" by simp
    from Cons.IH [OF this, of idx'] Inr show ?thesis by simp
  qed
qed

text \<open>
  Whatever else the selected files hold, one line that is not JSON ends the cycle
  with an exception, and the task with it: the monitor keeps the views it had.
\<close>

lemma update_stats_malformed:
  assumes "NotJson \<in> set (concat (map snd (select_files num_file fs (log_dir_list self))))"
  shows "\<exists>e. update_stats_cycle num_file now fs self = Inl e \<and>
             update_stats num_file ((now, fs) # wakeups) self = (Terminated e, self)"
proof -
  from read_files_malformed [OF assms, of "([], [])"]
  obtain e where "read_files (select_files num_file fs (log_dir_list self)) ([], []) = Inl e" ..
  then have "update_stats_cycle num_file now fs self = Inl e"
    by (simp add: update_stats_cycle_def)
  then show ?thesis by simp
qed

lemma select_clean_fs:
  "select_files 2 clean_fs [''server0''] =
     [(2, [chat_line ''m1'' (100000 - 10) ''u1'',
           Object \<lparr> obj_type = Some ''upvote'', obj_model = None, obj_tstamp = None,
                    obj_ip = None \<rparr>]),
      (1, [chat_line ''m0'' 10 ''u0''])]"
  by (simp add: select_files_def clean_fs_def sorted_reverse_def slice_to_def)

lemma read_clean_fs:
  "read_files (select_files 2 clean_fs [''server0'']) ([], []) =
     Inr ([(''m1'', [\<lparr> tstamp = 100000 - 10, user_id = ''u1'' \<rparr>]),
           (''m0'', [\<lparr> tstamp = 10, user_id = ''u0'' \<rparr>])],
          [(''u1'', [\<lparr> u_tstamp = 100000 - 10, u_model = ''m1'' \<rparr>]),
           (''u0'', [\<lparr> u_tstamp = 10, u_model = ''m0'' \<rparr>])])"
  by (simp add: select_clean_fs chat_line_def append_req_def)

text \<open>
  A directory with two files; the newer one holds a chat record of ten seconds ago
  and a record of another type. After one cycle the hourly model statistics hold one
  call of that model, and one user was active in the last hour.
\<close>

lemma refresh_cycle_scenario:
  "\<exists>self'. update_stats_cycle 2 100000 clean_fs (Monitor_init [''server0'']) = Inr self' \<and>
      get_model_call_stats self' 100000 (Some ''m1'') 60 None = [(''m1'', 1)] \<and>
      model_call_stats_hour self' = Some [(''m1'', 1), (''m0'', 0)] \<and>
      get_num_users_hr self' = Inr (Num_users 1)"
  by (simp add: update_stats_cycle_def read_clean_fs Let_def get_model_call_stats_def
        get_user_call_stats_def get_num_users_hr_def too_old_def)

text \<open>
  Claim C7 asks that a malformed line is skipped, the cycle goes on and publishes,
  and the task lives on. The source catches nothing: a line that is not JSON between
  two good ones, or a chat record without \<^verbatim>\<open>ip\<close>, ends the cycle with the exception
  before anything is assigned, the task ends with it, and the later wake-up with
  clean files never happens.
\<close>

theorem malformed_line_ends_refresh_task:
  "update_stats_cycle 2 100000 corrupt_fs (Monitor_init [''server0'']) = Inl JSONDecodeError \<and>
   update_stats 2 [(100000, corrupt_fs), (100300, clean_fs)] (Monitor_init [''server0'']) =
     (Terminated JSONDecodeError, Monitor_init [''server0'']) \<and>
   update_stats_cycle 2 100000 incomplete_fs (Monitor_init [''server0'']) =
     Inl (KeyError ''ip'') \<and>
   update_stats 2 [(100000, incomplete_fs), (100300, clean_fs)] (Monitor_init [''server0'']) =
     (Terminated (KeyError ''ip''), Monitor_init [''server0''])"
proof -
  have c: "update_stats_cycle 2 100000 corrupt_fs (Monitor_init [''server0'']) =
           Inl JSONDecodeError"
    by (simp add: update_stats_cycle_def select_files_def corrupt_fs_def sorted_reverse_def
          slice_to_def chat_line_def append_req_def)
  have i: "update_stats_cycle 2 100000 incomplete_fs (Monitor_init [''server0'']) =
           Inl (KeyError ''ip'')"
    by (simp add: update_stats_cycle_def select_files_def incomplete_fs_def sorted_reverse_def
          slice_to_def chat_line_def append_req_def)
  show ?thesis by (simp add: c i)
qed

lemma initial_state_total_queries:
  "get_model_call_limit (Monitor_init dirs) ''gpt-4-1106-preview'' = 100"
  "get_model_call_stats (Monitor_init dirs) now tm w None = []"
  "get_user_call_stats (Monitor_init dirs) now tm w None = []"
  "get_num_users (Monitor_init dirs) now w = 0"
  "is_limit_reached (Monitor_init dirs) ''nonexistent-model'' uid = Inr (Limit_reached False None)"
  by (simp_all add: Monitor_init_def get_model_call_limit_def get_model_call_stats_def
        get_user_call_stats_def get_num_users_def is_limit_reached_def
        is_model_limit_reached_def is_user_limit_reached_def)

text \<open>
  Claim C9 asks that every query answers on the state the constructor builds. The
  constructor assigns the two indices and not the four cached views, so the limit
  check of a configured model and both user counts raise \<^verbatim>\<open>AttributeError\<close>.
  The same holds for good when the first cycle ends on a malformed line.
\<close>

theorem initial_state_limit_check_faults:
  "is_limit_reached (Monitor_init dirs) ''gpt-4-1106-preview'' uid =
     Inl (AttributeError ''model_call_stats_hour'') \<and>
   get_num_users_hr (Monitor_init dirs) = Inl (AttributeError ''user_call_stats_hour'') \<and>
   get_num_users_day (Monitor_init dirs) = Inl (AttributeError ''user_call_stats_day'') \<and>
   fst (serve (snd (run (Running, Monitor_init [''server0'']) [Wakeup 100000 corrupt_fs]))
          100001 (Is_limit_reached ''gpt-4-1106-preview'' uid)) =
     Inl (AttributeError ''model_call_stats_hour'')"
proof -
  have a: "is_limit_reached (Monitor_init dirs) ''gpt-4-1106-preview'' uid =
     Inl (AttributeError ''model_call_stats_hour'')" for dirs
    by (simp add: Monitor_init_def is_limit_reached_def is_model_limit_reached_def)
  have b: "get_num_users_hr (Monitor_init dirs) = Inl (AttributeError ''user_call_stats_hour'')"
    by (simp add: Monitor_init_def get_num_users_hr_def)
  have c: "get_num_users_day (Monitor_init dirs) = Inl (AttributeError ''user_call_stats_day'')"
    by (simp add: Monitor_init_def get_num_users_day_def)
  have d: "update_stats_cycle 2 100000 corrupt_fs (Monitor_init [''server0'']) =
           Inl JSONDecodeError"
    by (simp add: update_stats_cycle_def select_files_def corrupt_fs_def sorted_reverse_def
          slice_to_def chat_line_def append_req_def)
  show ?thesis by (simp add: a b c d run_def)
qed

end
